theory Spec2Isabelle
  imports Complex_Main
begin

section \<open>Values of evaluations\<close>

text \<open>
  The optimiser only stores and compares the values \<open>qinfo.val\<close> and \<open>qinfo.true_val\<close>; it
  never does arithmetic on them.  A Python float is therefore modelled by what the comparison
  \<open>a > b\<close> can see of it: not-a-number, or a number of the extended real line.  The two zeros of
  a float compare equal and are the one \<open>Finite 0\<close>.
\<close>

datatype extreal = MInf | Finite real | PInf

instantiation extreal :: linorder
begin

fun less_eq_extreal :: "extreal \<Rightarrow> extreal \<Rightarrow> bool" where
  "less_eq_extreal MInf b = True"
| "less_eq_extreal (Finite a) MInf = False"
| "less_eq_extreal (Finite a) (Finite b) = (a \<le> b)"
| "less_eq_extreal (Finite a) PInf = True"
| "less_eq_extreal PInf MInf = False"
| "less_eq_extreal PInf (Finite b) = False"
| "less_eq_extreal PInf PInf = True"

definition less_extreal :: "extreal \<Rightarrow> extreal \<Rightarrow> bool" where
  "less_extreal a b = (a \<le> b \<and> \<not> b \<le> a)"

instance
proof
  fix x y z :: extreal
  show "(x < y) = (x \<le> y \<and> \<not> y \<le> x)"
    by (simp add: less_extreal_def)
  show "x \<le> x"
    by (cases x) simp_all
  show "x \<le> y \<Longrightarrow> y \<le> z \<Longrightarrow> x \<le> z"
    by (cases x; cases y; cases z) simp_all
  show "x \<le> y \<Longrightarrow> y \<le> x \<Longrightarrow> x = y"
    by (cases x; cases y) simp_all
  show "x \<le> y \<or> y \<le> x"
    by (cases x; cases y) auto
qed

end

datatype pyfloat = NaN | Num extreal

text \<open>\<open>-np.inf\<close>, the value both optima start from.\<close>

abbreviation neg_inf :: pyfloat where
  "neg_inf \<equiv> Num MInf"

text \<open>Python's \<open>a > b\<close> on floats: false whenever an operand is not a number.\<close>

fun gt :: "pyfloat \<Rightarrow> pyfloat \<Rightarrow> bool" where
  "gt (Num a) (Num b) = (b < a)"
| "gt NaN b = False"
| "gt (Num a) NaN = False"

section \<open>Data\<close>

text \<open>
  An evaluation record \<open>qinfo\<close>.  Points and fidelities are opaque to the optimiser.
  \<open>fidel qinfo = None\<close> is a record without the attribute \<open>fidel\<close>
  (\<open>hasattr(qinfo, 'fidel')\<close> is false).
\<close>

record ('p, 'f) qinfo =
  point :: 'p
  val :: pyfloat
  true_val :: pyfloat
  fidel :: "'f option"

text \<open>
  The function caller, as far as the optimiser consults it.  Its class is not part of this
  module, so \<open>is_fidel_to_opt\<close> is whatever predicate the caller brings.
\<close>

record 'f func_caller =
  is_mf :: bool
  fidel_to_opt :: 'f
  is_fidel_to_opt :: "'f \<Rightarrow> bool"

text \<open>
  The namespace \<open>self.history\<close>.  \<open>history_prev_eval_points\<close> and \<open>history_prev_eval_vals\<close>
  are \<open>self.history.prev_eval_points\<close> and \<open>self.history.prev_eval_vals\<close>.
\<close>

record 'p history =
  query_vals :: "pyfloat list"
  query_true_vals :: "pyfloat list"
  curr_opt_vals :: "pyfloat list"
  curr_opt_points :: "'p option list"
  curr_true_opt_vals :: "pyfloat list"
  curr_true_opt_points :: "'p option list"
  query_at_fidel_to_opts :: "bool list"
  history_prev_eval_points :: "'p list"
  history_prev_eval_vals :: "pyfloat list"

text \<open>The attributes of the optimiser object \<open>self\<close> that this module reads or writes.\<close>

record ('p, 'f) optimiser =
  curr_opt_val :: pyfloat
  curr_opt_point :: "'p option"
  curr_true_opt_val :: pyfloat
  curr_true_opt_point :: "'p option"
  num_fidel_to_opt_calls :: int
  history :: "'p history"
  to_copy_from_qinfo_to_history :: "string \<rightharpoonup> string"
  prev_eval_points :: "'p list"
  prev_eval_vals :: "pyfloat list"
  prev_eval_true_vals :: "pyfloat list"
  prev_eval_fidels :: "'f list"

datatype error =
    NotImplementedError string
  | ValueError string
  | CalledMFOptimiserWithSFCaller string

text \<open>The two classes of the module; \<open>OptInitialiser\<close> inherits from \<open>BlackboxOptimiser\<close>.\<close>

datatype optimiser_class = BlackboxOptimiser | OptInitialiser

section \<open>Set up\<close>

text \<open>\<open>_blackbox_optimise_set_up\<close>.\<close>

definition blackbox_optimise_set_up ::
  "'f func_caller \<Rightarrow> ('p, 'f) optimiser \<Rightarrow> ('p, 'f) optimiser" where
  "blackbox_optimise_set_up fc self =
    (let h0 = history self;
         h1 = h0\<lparr>query_vals := [], query_true_vals := [], curr_opt_vals := [],
                 curr_opt_points := [], curr_true_opt_vals := [],
                 curr_true_opt_points := []\<rparr>;
         h2 = (if is_mf fc then h1\<lparr>query_at_fidel_to_opts := []\<rparr> else h1);
         h3 = h2\<lparr>history_prev_eval_points := [], history_prev_eval_vals := []\<rparr>
     in self\<lparr>curr_opt_val := neg_inf, curr_opt_point := None,
              curr_true_opt_val := neg_inf, curr_true_opt_point := None,
              history := h3,
              to_copy_from_qinfo_to_history :=
                (to_copy_from_qinfo_to_history self)
                  (''val'' \<mapsto> ''query_vals'', ''true_val'' \<mapsto> ''query_true_vals''),
              prev_eval_vals := [], prev_eval_true_vals := []\<rparr>)"

text \<open>
  \<open>_opt_method_set_up\<close>: abstract in \<open>BlackboxOptimiser\<close>, a no-op in \<open>OptInitialiser\<close>.
\<close>

fun opt_method_set_up ::
  "optimiser_class \<Rightarrow> ('p, 'f) optimiser \<Rightarrow> error + ('p, 'f) optimiser" where
  "opt_method_set_up BlackboxOptimiser self =
     Inl (NotImplementedError ''Implement in Optimisation Method class.'')"
| "opt_method_set_up OptInitialiser self = Inr self"

text \<open>\<open>_exd_child_set_up\<close>.\<close>

definition exd_child_set_up ::
  "optimiser_class \<Rightarrow> 'f func_caller \<Rightarrow> ('p, 'f) optimiser \<Rightarrow> error + ('p, 'f) optimiser" where
  "exd_child_set_up cls fc self =
    (let s1 = (if is_mf fc then self\<lparr>num_fidel_to_opt_calls := 0\<rparr> else self);
         s2 = blackbox_optimise_set_up fc s1
     in case opt_method_set_up cls s2 of
          Inl e \<Rightarrow> Inl e
        | Inr s3 \<Rightarrow> Inr (s3\<lparr>prev_eval_vals := []\<rparr>))"

section \<open>Book-keeping\<close>

text \<open>
  \<open>_update_opt_point_and_val\<close>.  The second argument is \<open>None\<close> when the caller leaves
  \<open>query_is_at_fidel_to_opt\<close> at its default.
\<close>

definition update_opt_point_and_val ::
  "('p, 'f) qinfo \<Rightarrow> bool option \<Rightarrow> ('p, 'f) optimiser \<Rightarrow> ('p, 'f) optimiser" where
  "update_opt_point_and_val qinfo query_is_at_fidel_to_opt self =
    (case query_is_at_fidel_to_opt of
       Some False \<Rightarrow> self
     | _ \<Rightarrow>
        (let s1 = (if gt (val qinfo) (curr_opt_val self)
                   then self\<lparr>curr_opt_val := val qinfo, curr_opt_point := Some (point qinfo)\<rparr>
                   else self)
         in if gt (true_val qinfo) (curr_true_opt_val s1)
            then s1\<lparr>curr_true_opt_val := true_val qinfo,
                     curr_true_opt_point := Some (point qinfo)\<rparr>
            else s1))"

text \<open>\<open>_opt_method_update_history\<close>: passes by default, and neither class overrides it.\<close>

definition opt_method_update_history ::
  "('p, 'f) qinfo \<Rightarrow> ('p, 'f) optimiser \<Rightarrow> ('p, 'f) optimiser" where
  "opt_method_update_history qinfo self = self"

text \<open>
  The fidelity of a record as both book-keeping methods read it:
  \<open>qinfo.fidel if hasattr(qinfo, 'fidel') else self.func_caller.fidel_to_opt\<close>.
\<close>

definition eval_fidel :: "'f func_caller \<Rightarrow> ('p, 'f) qinfo \<Rightarrow> 'f" where
  "eval_fidel fc qinfo = (case fidel qinfo of Some f \<Rightarrow> f | None \<Rightarrow> fidel_to_opt fc)"

text \<open>\<open>_exd_child_update_history\<close>.  \<open>+=\<close> of a Boolean adds 1 or 0.\<close>

definition exd_child_update_history ::
  "'f func_caller \<Rightarrow> ('p, 'f) qinfo \<Rightarrow> ('p, 'f) optimiser \<Rightarrow> ('p, 'f) optimiser" where
  "exd_child_update_history fc qinfo self =
    (let s1 =
       (if is_mf fc then
          (let query_is_at_fidel_to_opt = is_fidel_to_opt fc (eval_fidel fc qinfo);
               h = history self;
               sa = self\<lparr>history := h\<lparr>query_at_fidel_to_opts :=
                       query_at_fidel_to_opts h @ [query_is_at_fidel_to_opt]\<rparr>\<rparr>;
               sb = sa\<lparr>num_fidel_to_opt_calls :=
                       num_fidel_to_opt_calls sa + (if query_is_at_fidel_to_opt then 1 else 0)\<rparr>
           in update_opt_point_and_val qinfo (Some query_is_at_fidel_to_opt) sb)
        else update_opt_point_and_val qinfo None self);
         h1 = history s1;
         s2 = s1\<lparr>history := h1\<lparr>
                curr_opt_vals := curr_opt_vals h1 @ [curr_opt_val s1],
                curr_opt_points := curr_opt_points h1 @ [curr_opt_point s1],
                curr_true_opt_vals := curr_true_opt_vals h1 @ [curr_true_opt_val s1],
                curr_true_opt_points := curr_true_opt_points h1 @ [curr_true_opt_point s1]\<rparr>\<rparr>
     in opt_method_update_history qinfo s2)"

text \<open>
  \<open>_exd_child_handle_prev_evals\<close>: first the body of its loop, then the loop over
  \<open>self.options.prev_evaluations.qinfos\<close> and the two assignments after it.
\<close>

definition handle_prev_eval ::
  "'f func_caller \<Rightarrow> ('p, 'f) qinfo \<Rightarrow> ('p, 'f) optimiser \<Rightarrow> ('p, 'f) optimiser" where
  "handle_prev_eval fc qinfo self =
    (let s1 =
       (if is_mf fc then
          (let ef = eval_fidel fc qinfo;
               sa = self\<lparr>prev_eval_fidels := prev_eval_fidels self @ [ef]\<rparr>;
               query_is_at_fidel_to_opt = is_fidel_to_opt fc ef
           in update_opt_point_and_val qinfo (Some query_is_at_fidel_to_opt) sa)
        else update_opt_point_and_val qinfo None self);
         s2 = s1\<lparr>prev_eval_points := prev_eval_points s1 @ [point qinfo]\<rparr>
     in s2\<lparr>prev_eval_vals := prev_eval_vals s2 @ [val qinfo]\<rparr>)"

primrec handle_prev_evals_loop ::
  "'f func_caller \<Rightarrow> ('p, 'f) qinfo list \<Rightarrow> ('p, 'f) optimiser \<Rightarrow> ('p, 'f) optimiser" where
  "handle_prev_evals_loop fc [] self = self"
| "handle_prev_evals_loop fc (qinfo # qinfos) self =
     handle_prev_evals_loop fc qinfos (handle_prev_eval fc qinfo self)"

definition exd_child_handle_prev_evals ::
  "'f func_caller \<Rightarrow> ('p, 'f) qinfo list \<Rightarrow> ('p, 'f) optimiser \<Rightarrow> ('p, 'f) optimiser" where
  "exd_child_handle_prev_evals fc qinfos self =
    (let s = handle_prev_evals_loop fc qinfos self;
         h = history s
     in s\<lparr>history := h\<lparr>history_prev_eval_points := prev_eval_points s,
                          history_prev_eval_vals := prev_eval_vals s\<rparr>\<rparr>)"

text \<open>\<open>_get_final_return_quantities\<close>.\<close>

definition get_final_return_quantities ::
  "('p, 'f) optimiser \<Rightarrow> pyfloat \<times> 'p option \<times> 'p history" where
  "get_final_return_quantities self = (curr_opt_val self, curr_opt_point self, history self)"

section \<open>Reporting\<close>

text \<open>The conversion \<open>%d\<close> of an integer: decimal digits, a minus sign when negative.\<close>

fun str_of_nat :: "nat \<Rightarrow> string" where
  "str_of_nat n =
     (if n < 10 then [''0123456789'' ! n]
      else str_of_nat (n div 10) @ [''0123456789'' ! (n mod 10)])"

declare str_of_nat.simps [simp del]

definition fmt_d :: "int \<Rightarrow> string" where
  "fmt_d i = (if i < 0 then CHR ''-'' # str_of_nat (nat (- i)) else str_of_nat (nat i))"

text \<open>\<open>sum\<close> of a list of Booleans: \<open>True\<close> counts 1 and \<open>False\<close> counts 0.\<close>

definition sum_bools :: "bool list \<Rightarrow> int" where
  "sum_bools bs = sum_list (map (\<lambda>b. if b then 1 else 0) bs)"

text \<open>
  The slice \<open>xs[-n:]\<close> for a positive \<open>n\<close>: the last \<open>n\<close> items, and all of \<open>xs\<close> when it
  has fewer than \<open>n\<close> (the subtraction on \<open>nat\<close> stops at 0).
\<close>

definition slice_last :: "nat \<Rightarrow> 'a list \<Rightarrow> 'a list" where
  "slice_last n xs = drop (length xs - n) xs"

text \<open>\<open>_get_opt_method_report_results_str\<close>.\<close>

definition get_opt_method_report_results_str :: string where
  "get_opt_method_report_results_str = []"

text \<open>
  \<open>_get_exd_child_report_results_str\<close> of \<open>BlackboxOptimiser\<close>.  \<open>fidel_to_opt_str\<close> is its
  local variable of that name.  How \<open>%0.5f\<close> prints a float is left to the parameter
  \<open>fmt_0_5f\<close>.
\<close>

definition fidel_to_opt_str :: "'f func_caller \<Rightarrow> ('p, 'f) optimiser \<Rightarrow> string" where
  "fidel_to_opt_str fc self =
    (if is_mf fc then
       (let window_length = 20;
            window_queries_at_f2o = slice_last window_length (query_at_fidel_to_opts (history self))
        in '', #f2o='' @ fmt_d (num_fidel_to_opt_calls self) @ ''('' @
           fmt_d (sum_bools window_queries_at_f2o) @ ''/'' @ fmt_d (int window_length) @ '')'')
     else [])"

definition get_exd_child_report_results_str ::
  "(pyfloat \<Rightarrow> string) \<Rightarrow> 'f func_caller \<Rightarrow> ('p, 'f) optimiser \<Rightarrow> string" where
  "get_exd_child_report_results_str fmt_0_5f fc self =
    (let best_val_str = ''curr_max='' @ fmt_0_5f (curr_opt_val self);
         opt_method_str = get_opt_method_report_results_str
     in best_val_str @ fidel_to_opt_str fc self @ opt_method_str @ '', '')"

text \<open>
  The multi-fidelity part of the status line as the specification words it, to compare
  with \<open>fidel_to_opt_str\<close>: the total count, and the count over the most recent window
  "rendered as \<open>count/window_size\<close>", the window size being the actual length of the
  window (20, or fewer when the history is shorter).
\<close>

definition fidel_to_opt_str_spec :: "'f func_caller \<Rightarrow> ('p, 'f) optimiser \<Rightarrow> string" where
  "fidel_to_opt_str_spec fc self =
    (if is_mf fc then
       (let window = slice_last 20 (query_at_fidel_to_opts (history self))
        in '', #f2o='' @ fmt_d (num_fidel_to_opt_calls self) @ ''('' @
           fmt_d (sum_bools window) @ ''/'' @ fmt_d (int (length window)) @ '')'')
     else [])"

section \<open>The initialiser\<close>

text \<open>
  What a call of a method on an object of either class runs.  \<open>OptInitialiser\<close> overrides
  \<open>_exd_child_handle_prev_evals\<close>; it does not override \<open>_exd_child_update_history\<close> or
  \<open>_update_opt_point_and_val\<close>, so it inherits them from \<open>BlackboxOptimiser\<close>.
\<close>

fun call_exd_child_handle_prev_evals ::
  "optimiser_class \<Rightarrow> 'f func_caller \<Rightarrow> ('p, 'f) qinfo list \<Rightarrow> ('p, 'f) optimiser \<Rightarrow>
   error + ('p, 'f) optimiser" where
  "call_exd_child_handle_prev_evals BlackboxOptimiser fc qinfos self =
     Inr (exd_child_handle_prev_evals fc qinfos self)"
| "call_exd_child_handle_prev_evals OptInitialiser fc qinfos self =
     Inl (ValueError ''No reason to call this method in an initialiser.'')"

fun call_exd_child_update_history ::
  "optimiser_class \<Rightarrow> 'f func_caller \<Rightarrow> ('p, 'f) qinfo \<Rightarrow> ('p, 'f) optimiser \<Rightarrow>
   error + ('p, 'f) optimiser" where
  "call_exd_child_update_history BlackboxOptimiser fc qinfo self =
     Inr (exd_child_update_history fc qinfo self)"
| "call_exd_child_update_history OptInitialiser fc qinfo self =
     Inr (exd_child_update_history fc qinfo self)"

fun call_update_opt_point_and_val ::
  "optimiser_class \<Rightarrow> ('p, 'f) qinfo \<Rightarrow> bool option \<Rightarrow> ('p, 'f) optimiser \<Rightarrow>
   error + ('p, 'f) optimiser" where
  "call_update_opt_point_and_val BlackboxOptimiser qinfo b self =
     Inr (update_opt_point_and_val qinfo b self)"
| "call_update_opt_point_and_val OptInitialiser qinfo b self =
     Inr (update_opt_point_and_val qinfo b self)"

text \<open>
  \<open>_get_initial_qinfos\<close>, \<open>_determine_next_query\<close> and \<open>_determine_next_batch_of_queries\<close>
  of \<open>OptInitialiser\<close>; the arguments are ignored.
\<close>

definition OptInitialiser_get_initial_qinfos :: "int \<Rightarrow> error + ('p, 'f) qinfo list" where
  "OptInitialiser_get_initial_qinfos num_init_evals =
     Inl (ValueError ''No reason to call this method in an initialiser.'')"

definition OptInitialiser_determine_next_query :: "error + ('p, 'f) qinfo" where
  "OptInitialiser_determine_next_query =
     Inl (ValueError ''No reason to call this method in an initialiser.'')"

definition OptInitialiser_determine_next_batch_of_queries ::
  "int \<Rightarrow> error + ('p, 'f) qinfo list" where
  "OptInitialiser_determine_next_batch_of_queries batch_size =
     Inl (ValueError ''No reason to call this method in an initialiser.'')"

section \<open>Processing a sequence of evaluations\<close>

text \<open>The state after \<open>_exd_child_update_history\<close> has been called on each record in turn.\<close>

primrec update_all ::
  "'f func_caller \<Rightarrow> ('p, 'f) qinfo list \<Rightarrow> ('p, 'f) optimiser \<Rightarrow> ('p, 'f) optimiser" where
  "update_all fc [] self = self"
| "update_all fc (qinfo # qinfos) self =
     update_all fc qinfos (exd_child_update_history fc qinfo self)"

text \<open>
  The local variable \<open>query_is_at_fidel_to_opt\<close> of the two book-keeping methods, and
  whether a record goes through the two comparisons of \<open>_update_opt_point_and_val\<close>: always
  in single-fidelity mode, and only at the fidelity to optimise in multi-fidelity mode.
\<close>

definition at_fidel_to_opt :: "'f func_caller \<Rightarrow> ('p, 'f) qinfo \<Rightarrow> bool" where
  "at_fidel_to_opt fc qinfo = is_fidel_to_opt fc (eval_fidel fc qinfo)"

definition eligible :: "'f func_caller \<Rightarrow> ('p, 'f) qinfo \<Rightarrow> bool" where
  "eligible fc qinfo = (if is_mf fc then at_fidel_to_opt fc qinfo else True)"

text \<open>The four attributes that hold the optimum.\<close>

definition optimum_fields ::
  "('p, 'f) optimiser \<Rightarrow> pyfloat \<times> 'p option \<times> pyfloat \<times> 'p option" where
  "optimum_fields self =
     (curr_opt_val self, curr_opt_point self, curr_true_opt_val self, curr_true_opt_point self)"

section \<open>The exception of the constructor\<close>





section \<open>The update call of the driver\<close>

text \<open>
  Modelled from the spec: the driver's own part of processing one completed evaluation
  (section 4.2, step 3: "Append \<open>record.value\<close>, \<open>record.true_value\<close> [...] to the respective
  EvaluationHistory sequences").  The driver class \<open>ExperimentDesigner\<close> is not part of this
  module; \<open>_blackbox_optimise_set_up\<close> registers \<open>val\<close> and \<open>true_val\<close> with it in
  \<open>to_copy_from_qinfo_to_history\<close>, to be copied to \<open>query_vals\<close> and \<open>query_true_vals\<close>.
\<close>

definition copy_from_qinfo_to_history ::
  "('p, 'f) qinfo \<Rightarrow> ('p, 'f) optimiser \<Rightarrow> ('p, 'f) optimiser" where
  "copy_from_qinfo_to_history qinfo self =
    (let h = history self
     in self\<lparr>history := h\<lparr>query_vals := query_vals h @ [val qinfo],
                             query_true_vals := query_true_vals h @ [true_val qinfo]\<rparr>\<rparr>)"

text \<open>
  Modelled from the spec: one update call of the driver (section 4.2), which is the copy above
  followed by the hook \<open>_exd_child_update_history\<close> of this module.
\<close>

definition update_history ::
  "'f func_caller \<Rightarrow> ('p, 'f) qinfo \<Rightarrow> ('p, 'f) optimiser \<Rightarrow> ('p, 'f) optimiser" where
  "update_history fc qinfo self =
     exd_child_update_history fc qinfo (copy_from_qinfo_to_history qinfo self)"

text \<open>
  Modelled from the spec: the driver calls update "once per completed evaluation (in the
  order it chooses to process them)" (section 2); this is the state after the calls for a
  sequence of records.
\<close>

primrec update_history_all ::
  "'f func_caller \<Rightarrow> ('p, 'f) qinfo list \<Rightarrow> ('p, 'f) optimiser \<Rightarrow> ('p, 'f) optimiser" where
  "update_history_all fc [] self = self"
| "update_history_all fc (qinfo # qinfos) self =
     update_history_all fc qinfos (update_history fc qinfo self)"

section \<open>Example inputs\<close>

text \<open>
  A single-fidelity caller and a multi-fidelity caller whose fidelity to optimise is
  \<open>''high''\<close>; an optimiser object with stale attributes, as before a set up; and records
  with finite values.
\<close>

definition sf_caller :: "string func_caller" where
  "sf_caller = \<lparr>is_mf = False, fidel_to_opt = ''high'', is_fidel_to_opt = (\<lambda>f. f = ''high'')\<rparr>"

definition mf_caller :: "string func_caller" where
  "mf_caller = \<lparr>is_mf = True, fidel_to_opt = ''high'', is_fidel_to_opt = (\<lambda>f. f = ''high'')\<rparr>"

definition stale_history :: "nat history" where
  "stale_history =
     \<lparr>query_vals = [NaN], query_true_vals = [NaN], curr_opt_vals = [NaN],
      curr_opt_points = [None], curr_true_opt_vals = [NaN], curr_true_opt_points = [None],
      query_at_fidel_to_opts = [True], history_prev_eval_points = [0],
      history_prev_eval_vals = [NaN]\<rparr>"

definition stale_optimiser :: "(nat, string) optimiser" where
  "stale_optimiser =
     \<lparr>curr_opt_val = Num PInf, curr_opt_point = Some 0, curr_true_opt_val = Num PInf,
      curr_true_opt_point = Some 0, num_fidel_to_opt_calls = 5, history = stale_history,
      to_copy_from_qinfo_to_history = Map.empty, prev_eval_points = [],
      prev_eval_vals = [NaN], prev_eval_true_vals = [NaN], prev_eval_fidels = []\<rparr>"


definition mk_qinfo :: "nat \<Rightarrow> real \<Rightarrow> real \<Rightarrow> string option \<Rightarrow> (nat, string) qinfo" where
  "mk_qinfo p v t f = \<lparr>point = p, val = Num (Finite v), true_val = Num (Finite t), fidel = f\<rparr>"

section \<open>Properties\<close>


lemma gt_irrefl: "\<not> gt x x"
  by (cases x) simp_all

lemmas uopv_defs = update_opt_point_and_val_def Let_def

lemma uopv_curr_opt_val:
  "curr_opt_val (update_opt_point_and_val q b s) =
     (if b \<noteq> Some False \<and> gt (val q) (curr_opt_val s) then val q else curr_opt_val s)"
  by (simp add: uopv_defs split: option.split bool.split)

lemma uopv_curr_opt_point:
  "curr_opt_point (update_opt_point_and_val q b s) =
     (if b \<noteq> Some False \<and> gt (val q) (curr_opt_val s) then Some (point q) else curr_opt_point s)"
  by (simp add: uopv_defs split: option.split bool.split)

lemma uopv_curr_true_opt_val:
  "curr_true_opt_val (update_opt_point_and_val q b s) =
     (if b \<noteq> Some False \<and> gt (true_val q) (curr_true_opt_val s) then true_val q
      else curr_true_opt_val s)"
  by (simp add: uopv_defs split: option.split bool.split)

lemma uopv_curr_true_opt_point:
  "curr_true_opt_point (update_opt_point_and_val q b s) =
     (if b \<noteq> Some False \<and> gt (true_val q) (curr_true_opt_val s) then Some (point q)
      else curr_true_opt_point s)"
  by (simp add: uopv_defs split: option.split bool.split)

lemma uopv_frame:
  "history (update_opt_point_and_val q b s) = history s"
  "num_fidel_to_opt_calls (update_opt_point_and_val q b s) = num_fidel_to_opt_calls s"
  "prev_eval_points (update_opt_point_and_val q b s) = prev_eval_points s"
  "prev_eval_vals (update_opt_point_and_val q b s) = prev_eval_vals s"
  "prev_eval_fidels (update_opt_point_and_val q b s) = prev_eval_fidels s"
  by (simp_all add: uopv_defs split: option.split bool.split)

lemmas uopv_simps = uopv_curr_opt_val uopv_curr_opt_point uopv_curr_true_opt_val
  uopv_curr_true_opt_point uopv_frame

lemmas ecuh_defs = exd_child_update_history_def opt_method_update_history_def Let_def
  eligible_def at_fidel_to_opt_def

lemma ecuh_curr_opt_val:
  "curr_opt_val (exd_child_update_history fc q s) =
     (if eligible fc q \<and> gt (val q) (curr_opt_val s) then val q else curr_opt_val s)"
  by (simp add: ecuh_defs uopv_simps)

lemma ecuh_curr_opt_point:
  "curr_opt_point (exd_child_update_history fc q s) =
     (if eligible fc q \<and> gt (val q) (curr_opt_val s) then Some (point q) else curr_opt_point s)"
  by (simp add: ecuh_defs uopv_simps)

lemma ecuh_curr_true_opt_val:
  "curr_true_opt_val (exd_child_update_history fc q s) =
     (if eligible fc q \<and> gt (true_val q) (curr_true_opt_val s) then true_val q
      else curr_true_opt_val s)"
  by (simp add: ecuh_defs uopv_simps)

lemma ecuh_curr_true_opt_point:
  "curr_true_opt_point (exd_child_update_history fc q s) =
     (if eligible fc q \<and> gt (true_val q) (curr_true_opt_val s) then Some (point q)
      else curr_true_opt_point s)"
  by (simp add: ecuh_defs uopv_simps)

lemma ecuh_num_fidel_to_opt_calls:
  "num_fidel_to_opt_calls (exd_child_update_history fc q s) =
     num_fidel_to_opt_calls s + (if is_mf fc \<and> at_fidel_to_opt fc q then 1 else 0)"
  by (simp add: ecuh_defs uopv_simps)

lemma ecuh_history:
  "query_vals (history (exd_child_update_history fc q s)) = query_vals (history s)"
  "query_true_vals (history (exd_child_update_history fc q s)) = query_true_vals (history s)"
  "curr_opt_vals (history (exd_child_update_history fc q s)) =
     curr_opt_vals (history s) @ [curr_opt_val (exd_child_update_history fc q s)]"
  "curr_opt_points (history (exd_child_update_history fc q s)) =
     curr_opt_points (history s) @ [curr_opt_point (exd_child_update_history fc q s)]"
  "curr_true_opt_vals (history (exd_child_update_history fc q s)) =
     curr_true_opt_vals (history s) @ [curr_true_opt_val (exd_child_update_history fc q s)]"
  "curr_true_opt_points (history (exd_child_update_history fc q s)) =
     curr_true_opt_points (history s) @ [curr_true_opt_point (exd_child_update_history fc q s)]"
  "query_at_fidel_to_opts (history (exd_child_update_history fc q s)) =
     (if is_mf fc then query_at_fidel_to_opts (history s) @ [at_fidel_to_opt fc q]
      else query_at_fidel_to_opts (history s))"
  "history_prev_eval_points (history (exd_child_update_history fc q s)) =
     history_prev_eval_points (history s)"
  "history_prev_eval_vals (history (exd_child_update_history fc q s)) =
     history_prev_eval_vals (history s)"
  by (simp_all add: ecuh_defs uopv_simps)


lemmas ecuh_simps = ecuh_curr_opt_val ecuh_curr_opt_point ecuh_curr_true_opt_val
  ecuh_curr_true_opt_point ecuh_num_fidel_to_opt_calls ecuh_history

lemmas example_defs = sf_caller_def mf_caller_def mk_qinfo_def stale_optimiser_def
  stale_history_def

lemmas eval_defs = eligible_def at_fidel_to_opt_def eval_fidel_def less_extreal_def
  optimum_fields_def blackbox_optimise_set_up_def Let_def

lemma gt_Num_Num_max: "(if gt (Num v) (Num a) then Num v else Num a) = Num (max a v)"
  by (auto simp: max_def)

lemma Max_insert_max:
  "finite S \<Longrightarrow> Max (insert (max a v) S) = Max (insert a (insert v S))"
  for a :: "'a::linorder"
  by (cases "S = {}") (simp_all add: max.assoc)

lemma update_all_sf_curr_opt_val:
  "\<not> is_mf fc \<Longrightarrow> map val qs = map Num vs \<Longrightarrow> curr_opt_val s = Num a \<Longrightarrow>
   curr_opt_val (update_all fc qs s) = Num (Max (insert a (set vs)))"
proof (induction qs arbitrary: s vs a)
  case Nil
  then show ?case by simp
next
  case (Cons q qs)
  from Cons.prems(2) obtain v vs' where vs: "vs = v # vs'" and v: "val q = Num v"
    and rest: "map val qs = map Num vs'"
    by (cases vs) auto
  have step: "curr_opt_val (exd_child_update_history fc q s) = Num (max a v)"
    using Cons.prems(1,3) v by (simp add: ecuh_curr_opt_val eligible_def gt_Num_Num_max)
  show ?case
    using Cons.IH [OF Cons.prems(1) rest step] vs by (simp add: Max_insert_max)
qed

lemma update_all_sf_curr_true_opt_val:
  "\<not> is_mf fc \<Longrightarrow> map true_val qs = map Num ts \<Longrightarrow> curr_true_opt_val s = Num a \<Longrightarrow>
   curr_true_opt_val (update_all fc qs s) = Num (Max (insert a (set ts)))"
proof (induction qs arbitrary: s ts a)
  case Nil
  then show ?case by simp
next
  case (Cons q qs)
  from Cons.prems(2) obtain t ts' where ts: "ts = t # ts'" and t: "true_val q = Num t"
    and rest: "map true_val qs = map Num ts'"
    by (cases ts) auto
  have step: "curr_true_opt_val (exd_child_update_history fc q s) = Num (max a t)"
    using Cons.prems(1,3) t by (simp add: ecuh_curr_true_opt_val eligible_def gt_Num_Num_max)
  show ?case
    using Cons.IH [OF Cons.prems(1) rest step] ts by (simp add: Max_insert_max)
qed

lemma Max_insert_MInf: "finite S \<Longrightarrow> S \<noteq> {} \<Longrightarrow> Max (insert MInf S) = Max S"
  by (simp add: max_def)

lemma set_up_optimum:
  "curr_opt_val (blackbox_optimise_set_up fc s) = neg_inf"
  "curr_opt_point (blackbox_optimise_set_up fc s) = None"
  "curr_true_opt_val (blackbox_optimise_set_up fc s) = neg_inf"
  "curr_true_opt_point (blackbox_optimise_set_up fc s) = None"
  by (simp_all add: blackbox_optimise_set_up_def Let_def)

text \<open>
  Claim C1.  In single-fidelity mode, after \<open>_exd_child_update_history\<close> has been called on
  each record of a non-empty sequence, starting from the state that \<open>_blackbox_optimise_set_up\<close>
  leaves, \<open>curr_opt_val\<close> is the maximum of the \<open>val\<close> fields seen so far and
  \<open>curr_true_opt_val\<close> is the maximum of the \<open>true_val\<close> fields seen so far, for records
  whose values are numbers.  The two comparisons are independent: after some sequence of
  records, one record raises \<open>curr_opt_val\<close> and leaves the true optimum alone, and another
  raises \<open>curr_true_opt_val\<close> and leaves the observed optimum alone.
\<close>

theorem single_fidelity_optimum_is_max:
  assumes "\<not> is_mf fc" and "qs \<noteq> []"
    and "map val qs = map Num vs" and "map true_val qs = map Num ts"
  shows "curr_opt_val (update_all fc qs (blackbox_optimise_set_up fc s)) = Num (Max (set vs)) \<and>
         curr_true_opt_val (update_all fc qs (blackbox_optimise_set_up fc s)) = Num (Max (set ts)) \<and>
         (\<exists>qs' q1 q2.
            let s' = update_all sf_caller qs' (blackbox_optimise_set_up sf_caller stale_optimiser);
                s1 = exd_child_update_history sf_caller q1 s';
                s2 = exd_child_update_history sf_caller q2 s'
            in curr_opt_val s1 \<noteq> curr_opt_val s' \<and>
               curr_true_opt_val s1 = curr_true_opt_val s' \<and>
               curr_true_opt_point s1 = curr_true_opt_point s' \<and>
               curr_true_opt_val s2 \<noteq> curr_true_opt_val s' \<and>
               curr_opt_val s2 = curr_opt_val s' \<and>
               curr_opt_point s2 = curr_opt_point s')"
proof (intro conjI)
  from assms(2,3) have vs: "vs \<noteq> []" by auto
  from assms(2,4) have ts: "ts \<noteq> []" by auto
  show "curr_opt_val (update_all fc qs (blackbox_optimise_set_up fc s)) = Num (Max (set vs))"
    using update_all_sf_curr_opt_val [OF assms(1,3) set_up_optimum(1) [of fc s]] vs
    by (simp add: Max_insert_MInf)
  show "curr_true_opt_val (update_all fc qs (blackbox_optimise_set_up fc s)) = Num (Max (set ts))"
    using update_all_sf_curr_true_opt_val [OF assms(1,4) set_up_optimum(3) [of fc s]] ts
    by (simp add: Max_insert_MInf)
  have "let s' = update_all sf_caller [mk_qinfo 1 5 5 None]
                   (blackbox_optimise_set_up sf_caller stale_optimiser);
            s1 = exd_child_update_history sf_caller (mk_qinfo 2 7 4 None) s';
            s2 = exd_child_update_history sf_caller (mk_qinfo 3 4 7 None) s'
        in curr_opt_val s1 \<noteq> curr_opt_val s' \<and>
           curr_true_opt_val s1 = curr_true_opt_val s' \<and>
           curr_true_opt_point s1 = curr_true_opt_point s' \<and>
           curr_true_opt_val s2 \<noteq> curr_true_opt_val s' \<and>
           curr_opt_val s2 = curr_opt_val s' \<and>
           curr_opt_point s2 = curr_opt_point s'"
    by (simp add: Let_def ecuh_curr_opt_val ecuh_curr_opt_point ecuh_curr_true_opt_val
        ecuh_curr_true_opt_point set_up_optimum eligible_def sf_caller_def mk_qinfo_def
        less_extreal_def)
  then show "\<exists>qs' q1 q2.
            let s' = update_all sf_caller qs' (blackbox_optimise_set_up sf_caller stale_optimiser);
                s1 = exd_child_update_history sf_caller q1 s';
                s2 = exd_child_update_history sf_caller q2 s'
            in curr_opt_val s1 \<noteq> curr_opt_val s' \<and>
               curr_true_opt_val s1 = curr_true_opt_val s' \<and>
               curr_true_opt_point s1 = curr_true_opt_point s' \<and>
               curr_true_opt_val s2 \<noteq> curr_true_opt_val s' \<and>
               curr_opt_val s2 = curr_opt_val s' \<and>
               curr_opt_point s2 = curr_opt_point s'"
    by blast
qed


theorem single_fidelity_optimum_is_max_witness:
  "\<not> is_mf sf_caller \<and>
   map val [mk_qinfo 1 3 3 None, mk_qinfo 2 7 6 None, mk_qinfo 3 5 5 None, mk_qinfo 4 9 9.5 None]
     = map Num [Finite 3, Finite 7, Finite 5, Finite 9] \<and>
   map true_val [mk_qinfo 1 3 3 None, mk_qinfo 2 7 6 None, mk_qinfo 3 5 5 None,
       mk_qinfo 4 9 9.5 None]
     = map Num [Finite 3, Finite 6, Finite 5, Finite 9.5] \<and>
   curr_opt_val (update_all sf_caller
       [mk_qinfo 1 3 3 None, mk_qinfo 2 7 6 None, mk_qinfo 3 5 5 None, mk_qinfo 4 9 9.5 None]
       (blackbox_optimise_set_up sf_caller stale_optimiser)) = Num (Finite 9) \<and>
   curr_true_opt_val (update_all sf_caller
       [mk_qinfo 1 3 3 None, mk_qinfo 2 7 6 None, mk_qinfo 3 5 5 None, mk_qinfo 4 9 9.5 None]
       (blackbox_optimise_set_up sf_caller stale_optimiser)) = Num (Finite 9.5)"
  using single_fidelity_optimum_is_max [of sf_caller
      "[mk_qinfo 1 3 3 None, mk_qinfo 2 7 6 None, mk_qinfo 3 5 5 None, mk_qinfo 4 9 9.5 None]"
      "[Finite 3, Finite 7, Finite 5, Finite 9]" "[Finite 3, Finite 6, Finite 5, Finite 9.5]"
      stale_optimiser]
  by (simp add: sf_caller_def mk_qinfo_def)

text \<open>
  Claim C9.  The comparison is a strict greater-than: a record whose \<open>val\<close> equals
  \<open>curr_opt_val\<close> replaces neither \<open>curr_opt_val\<close> nor \<open>curr_opt_point\<close>, and a record
  whose \<open>true_val\<close> equals \<open>curr_true_opt_val\<close> replaces neither \<open>curr_true_opt_val\<close> nor
  \<open>curr_true_opt_point\<close>, in \<open>_exd_child_update_history\<close> and in
  \<open>_update_opt_point_and_val\<close> alike.  The incumbent seen first wins a tie.
\<close>

theorem ties_keep_incumbent:
  "(val q = curr_opt_val s \<longrightarrow>
      curr_opt_val (exd_child_update_history fc q s) = curr_opt_val s \<and>
      curr_opt_point (exd_child_update_history fc q s) = curr_opt_point s \<and>
      curr_opt_val (update_opt_point_and_val q b s) = curr_opt_val s \<and>
      curr_opt_point (update_opt_point_and_val q b s) = curr_opt_point s) \<and>
   (true_val q = curr_true_opt_val s \<longrightarrow>
      curr_true_opt_val (exd_child_update_history fc q s) = curr_true_opt_val s \<and>
      curr_true_opt_point (exd_child_update_history fc q s) = curr_true_opt_point s \<and>
      curr_true_opt_val (update_opt_point_and_val q b s) = curr_true_opt_val s \<and>
      curr_true_opt_point (update_opt_point_and_val q b s) = curr_true_opt_point s)"
  by (simp add: ecuh_curr_opt_val ecuh_curr_opt_point ecuh_curr_true_opt_val
      ecuh_curr_true_opt_point uopv_simps gt_irrefl)

theorem ties_keep_incumbent_witness:
  "val (mk_qinfo 2 7 7 None) =
     curr_opt_val (update_all sf_caller [mk_qinfo 1 7 7 None]
       (blackbox_optimise_set_up sf_caller stale_optimiser)) \<and>
   true_val (mk_qinfo 2 7 7 None) =
     curr_true_opt_val (update_all sf_caller [mk_qinfo 1 7 7 None]
       (blackbox_optimise_set_up sf_caller stale_optimiser)) \<and>
   curr_opt_point (exd_child_update_history sf_caller (mk_qinfo 2 7 7 None)
     (update_all sf_caller [mk_qinfo 1 7 7 None]
       (blackbox_optimise_set_up sf_caller stale_optimiser))) = Some 1 \<and>
   curr_true_opt_point (exd_child_update_history sf_caller (mk_qinfo 2 7 7 None)
     (update_all sf_caller [mk_qinfo 1 7 7 None]
       (blackbox_optimise_set_up sf_caller stale_optimiser))) = Some 1"
  using ties_keep_incumbent [of "mk_qinfo 2 7 7 None"
      "update_all sf_caller [mk_qinfo 1 7 7 None]
         (blackbox_optimise_set_up sf_caller stale_optimiser)" sf_caller None]
  by (simp add: ecuh_curr_opt_val ecuh_curr_opt_point ecuh_curr_true_opt_val
      ecuh_curr_true_opt_point set_up_optimum eligible_def sf_caller_def mk_qinfo_def
      less_extreal_def)

lemma update_all_keeps_neg_inf:
  "\<forall>q\<in>set qs. eligible fc q \<longrightarrow> val q = neg_inf \<Longrightarrow>
   curr_opt_val s = neg_inf \<Longrightarrow> curr_opt_point s = None \<Longrightarrow>
   curr_opt_val (update_all fc qs s) = neg_inf \<and> curr_opt_point (update_all fc qs s) = None"
proof (induction qs arbitrary: s)
  case Nil
  then show ?case by simp
next
  case (Cons q qs)
  have no_gt: "\<not> (eligible fc q \<and> gt (val q) (curr_opt_val s))"
    using Cons.prems(1,2) by (auto simp: gt_irrefl)
  have "curr_opt_val (exd_child_update_history fc q s) = curr_opt_val s"
    and "curr_opt_point (exd_child_update_history fc q s) = curr_opt_point s"
    by (simp_all only: ecuh_curr_opt_val ecuh_curr_opt_point no_gt if_False)
  with Cons.IH [of "exd_child_update_history fc q s"] Cons.prems
  show ?case by simp
qed

text \<open>
  Claim C10.  The optimum starts at minus infinity and is replaced on strict greater-than
  only, so a record whose \<open>val\<close> is minus infinity never becomes the incumbent: when every
  eligible record of a sequence of updates has \<open>val\<close> minus infinity, \<open>curr_opt_val\<close> stays
  minus infinity, \<open>curr_opt_point\<close> stays \<open>None\<close>, and \<open>_get_final_return_quantities\<close>
  returns minus infinity, \<open>None\<close> and the history.
\<close>

theorem neg_inf_never_becomes_incumbent:
  assumes "\<forall>q\<in>set qs. eligible fc q \<longrightarrow> val q = neg_inf"
  shows "curr_opt_val (update_all fc qs (blackbox_optimise_set_up fc s)) = neg_inf \<and>
         curr_opt_point (update_all fc qs (blackbox_optimise_set_up fc s)) = None \<and>
         get_final_return_quantities (update_all fc qs (blackbox_optimise_set_up fc s)) =
           (neg_inf, None, history (update_all fc qs (blackbox_optimise_set_up fc s)))"
  using update_all_keeps_neg_inf [OF assms set_up_optimum(1) [of fc s] set_up_optimum(2) [of fc s]]
  by (simp add: get_final_return_quantities_def)

theorem neg_inf_never_becomes_incumbent_witness:
  "\<not> eligible mf_caller (mk_qinfo 1 10 10 (Some ''low'')) \<and>
   eligible mf_caller
     \<lparr>point = 2::nat, val = neg_inf, true_val = Num (Finite 1), fidel = Some ''high''\<rparr> \<and>
   eligible mf_caller
     \<lparr>point = 3::nat, val = neg_inf, true_val = neg_inf, fidel = None\<rparr> \<and>
   fst (get_final_return_quantities (update_all mf_caller
      [mk_qinfo 1 10 10 (Some ''low''),
       \<lparr>point = 2, val = neg_inf, true_val = Num (Finite 1), fidel = Some ''high''\<rparr>,
       \<lparr>point = 3, val = neg_inf, true_val = neg_inf, fidel = None\<rparr>]
      (blackbox_optimise_set_up mf_caller stale_optimiser))) = neg_inf \<and>
   fst (snd (get_final_return_quantities (update_all mf_caller
      [mk_qinfo 1 10 10 (Some ''low''),
       \<lparr>point = 2, val = neg_inf, true_val = Num (Finite 1), fidel = Some ''high''\<rparr>,
       \<lparr>point = 3, val = neg_inf, true_val = neg_inf, fidel = None\<rparr>]
      (blackbox_optimise_set_up mf_caller stale_optimiser)))) = None"
  using neg_inf_never_becomes_incumbent [of
      "[mk_qinfo 1 10 10 (Some ''low''),
        \<lparr>point = 2, val = neg_inf, true_val = Num (Finite 1), fidel = Some ''high''\<rparr>,
        \<lparr>point = 3, val = neg_inf, true_val = neg_inf, fidel = None\<rparr>]"
      mf_caller stale_optimiser]
  by (simp add: eligible_def at_fidel_to_opt_def eval_fidel_def mf_caller_def mk_qinfo_def)


lemma copy_frame:
  "curr_opt_val (copy_from_qinfo_to_history q s) = curr_opt_val s"
  "curr_opt_point (copy_from_qinfo_to_history q s) = curr_opt_point s"
  "curr_true_opt_val (copy_from_qinfo_to_history q s) = curr_true_opt_val s"
  "curr_true_opt_point (copy_from_qinfo_to_history q s) = curr_true_opt_point s"
  "query_vals (history (copy_from_qinfo_to_history q s)) = query_vals (history s) @ [val q]"
  "query_true_vals (history (copy_from_qinfo_to_history q s)) =
     query_true_vals (history s) @ [true_val q]"
  "curr_opt_vals (history (copy_from_qinfo_to_history q s)) = curr_opt_vals (history s)"
  "curr_opt_points (history (copy_from_qinfo_to_history q s)) = curr_opt_points (history s)"
  "curr_true_opt_vals (history (copy_from_qinfo_to_history q s)) =
     curr_true_opt_vals (history s)"
  "curr_true_opt_points (history (copy_from_qinfo_to_history q s)) =
     curr_true_opt_points (history s)"
  "query_at_fidel_to_opts (history (copy_from_qinfo_to_history q s)) =
     query_at_fidel_to_opts (history s)"
  by (simp_all add: copy_from_qinfo_to_history_def Let_def)

lemma ineligible_keeps_optimum:
  "\<not> eligible fc q \<Longrightarrow>
   curr_opt_val (exd_child_update_history fc q s) = curr_opt_val s \<and>
   curr_opt_point (exd_child_update_history fc q s) = curr_opt_point s \<and>
   curr_true_opt_val (exd_child_update_history fc q s) = curr_true_opt_val s \<and>
   curr_true_opt_point (exd_child_update_history fc q s) = curr_true_opt_point s"
  by (simp add: ecuh_curr_opt_val ecuh_curr_opt_point ecuh_curr_true_opt_val
      ecuh_curr_true_opt_point)

lemma uh_optimum_fields:
  "optimum_fields (update_history fc q s) = optimum_fields (exd_child_update_history fc q s)"
  by (simp add: optimum_fields_def update_history_def ecuh_curr_opt_val ecuh_curr_opt_point
      ecuh_curr_true_opt_val ecuh_curr_true_opt_point copy_frame)

text \<open>
  Claim C2.  In multi-fidelity mode, an update call for a record that is not at the fidelity
  to optimise leaves \<open>curr_opt_val\<close>, \<open>curr_opt_point\<close>, \<open>curr_true_opt_val\<close> and
  \<open>curr_true_opt_point\<close> as they were, and still appends exactly one entry to each per-step
  sequence of the history: the record's \<open>val\<close> and \<open>true_val\<close> to \<open>query_vals\<close> and
  \<open>query_true_vals\<close>, \<open>False\<close> to \<open>query_at_fidel_to_opts\<close>, and the unchanged optimum to
  the four running-optimum sequences.  The hook \<open>_exd_child_update_history\<close> alone leaves the
  four optimum attributes as well.  Hence a record that changes any of the four optimum
  attributes is at the fidelity to optimise.
\<close>

theorem off_target_record_leaves_optimum:
  assumes "is_mf fc"
  shows "(\<not> at_fidel_to_opt fc q \<longrightarrow>
            curr_opt_val (update_history fc q s) = curr_opt_val s \<and>
            curr_opt_point (update_history fc q s) = curr_opt_point s \<and>
            curr_true_opt_val (update_history fc q s) = curr_true_opt_val s \<and>
            curr_true_opt_point (update_history fc q s) = curr_true_opt_point s \<and>
            query_vals (history (update_history fc q s)) = query_vals (history s) @ [val q] \<and>
            query_true_vals (history (update_history fc q s)) =
              query_true_vals (history s) @ [true_val q] \<and>
            query_at_fidel_to_opts (history (update_history fc q s)) =
              query_at_fidel_to_opts (history s) @ [False] \<and>
            curr_opt_vals (history (update_history fc q s)) =
              curr_opt_vals (history s) @ [curr_opt_val s] \<and>
            curr_opt_points (history (update_history fc q s)) =
              curr_opt_points (history s) @ [curr_opt_point s] \<and>
            curr_true_opt_vals (history (update_history fc q s)) =
              curr_true_opt_vals (history s) @ [curr_true_opt_val s] \<and>
            curr_true_opt_points (history (update_history fc q s)) =
              curr_true_opt_points (history s) @ [curr_true_opt_point s] \<and>
            curr_opt_val (exd_child_update_history fc q s) = curr_opt_val s \<and>
            curr_opt_point (exd_child_update_history fc q s) = curr_opt_point s \<and>
            curr_true_opt_val (exd_child_update_history fc q s) = curr_true_opt_val s \<and>
            curr_true_opt_point (exd_child_update_history fc q s) = curr_true_opt_point s) \<and>
         (optimum_fields (update_history fc q s) \<noteq> optimum_fields s \<longrightarrow>
            at_fidel_to_opt fc q) \<and>
         (optimum_fields (exd_child_update_history fc q s) \<noteq> optimum_fields s \<longrightarrow>
            at_fidel_to_opt fc q)"
proof (intro conjI impI)
  assume off: "\<not> at_fidel_to_opt fc q"
  with assms have inel: "\<not> eligible fc q"
    by (simp add: eligible_def)
  let ?c = "copy_from_qinfo_to_history q s"
  note keep = ineligible_keeps_optimum [OF inel]
  show v: "curr_opt_val (update_history fc q s) = curr_opt_val s"
    using keep [of ?c] by (simp add: update_history_def copy_frame)
  show p: "curr_opt_point (update_history fc q s) = curr_opt_point s"
    using keep [of ?c] by (simp add: update_history_def copy_frame)
  show tv: "curr_true_opt_val (update_history fc q s) = curr_true_opt_val s"
    using keep [of ?c] by (simp add: update_history_def copy_frame)
  show tp: "curr_true_opt_point (update_history fc q s) = curr_true_opt_point s"
    using keep [of ?c] by (simp add: update_history_def copy_frame)
  show "query_vals (history (update_history fc q s)) = query_vals (history s) @ [val q]"
    by (simp add: update_history_def ecuh_history(1) copy_frame)
  show "query_true_vals (history (update_history fc q s)) =
          query_true_vals (history s) @ [true_val q]"
    by (simp add: update_history_def ecuh_history(2) copy_frame)
  show "query_at_fidel_to_opts (history (update_history fc q s)) =
          query_at_fidel_to_opts (history s) @ [False]"
    using assms off by (simp add: update_history_def ecuh_history(7) copy_frame)
  show "curr_opt_vals (history (update_history fc q s)) =
          curr_opt_vals (history s) @ [curr_opt_val s]"
    using v by (simp add: update_history_def ecuh_history(3) copy_frame)
  show "curr_opt_points (history (update_history fc q s)) =
          curr_opt_points (history s) @ [curr_opt_point s]"
    using p by (simp add: update_history_def ecuh_history(4) copy_frame)
  show "curr_true_opt_vals (history (update_history fc q s)) =
          curr_true_opt_vals (history s) @ [curr_true_opt_val s]"
    using tv by (simp add: update_history_def ecuh_history(5) copy_frame)
  show "curr_true_opt_points (history (update_history fc q s)) =
          curr_true_opt_points (history s) @ [curr_true_opt_point s]"
    using tp by (simp add: update_history_def ecuh_history(6) copy_frame)
  show "curr_opt_val (exd_child_update_history fc q s) = curr_opt_val s"
    using keep [of s] by simp
  show "curr_opt_point (exd_child_update_history fc q s) = curr_opt_point s"
    using keep [of s] by simp
  show "curr_true_opt_val (exd_child_update_history fc q s) = curr_true_opt_val s"
    using keep [of s] by simp
  show "curr_true_opt_point (exd_child_update_history fc q s) = curr_true_opt_point s"
    using keep [of s] by simp
next
  assume changed: "optimum_fields (update_history fc q s) \<noteq> optimum_fields s"
  show "at_fidel_to_opt fc q"
  proof (rule ccontr)
    assume "\<not> at_fidel_to_opt fc q"
    with assms have "\<not> eligible fc q"
      by (simp add: eligible_def)
    from ineligible_keeps_optimum [OF this, of s]
    have "optimum_fields (exd_child_update_history fc q s) = optimum_fields s"
      by (simp add: optimum_fields_def)
    with changed show False
      by (simp add: uh_optimum_fields)
  qed
next
  assume changed: "optimum_fields (exd_child_update_history fc q s) \<noteq> optimum_fields s"
  show "at_fidel_to_opt fc q"
  proof (rule ccontr)
    assume "\<not> at_fidel_to_opt fc q"
    with assms have "\<not> eligible fc q"
      by (simp add: eligible_def)
    from ineligible_keeps_optimum [OF this, of s]
    have "optimum_fields (exd_child_update_history fc q s) = optimum_fields s"
      by (simp add: optimum_fields_def)
    with changed show False by simp
  qed
qed

theorem off_target_record_leaves_optimum_witness:
  "is_mf mf_caller \<and>
   \<not> at_fidel_to_opt mf_caller (mk_qinfo 1 10 10 (Some ''low'')) \<and>
   curr_opt_val (update_history mf_caller (mk_qinfo 1 10 10 (Some ''low''))
     (blackbox_optimise_set_up mf_caller stale_optimiser)) = neg_inf \<and>
   curr_opt_point (update_history mf_caller (mk_qinfo 1 10 10 (Some ''low''))
     (blackbox_optimise_set_up mf_caller stale_optimiser)) = None \<and>
   query_vals (history (update_history mf_caller
     (mk_qinfo 1 10 10 (Some ''low'')) (blackbox_optimise_set_up mf_caller stale_optimiser)))
     = [Num (Finite 10)] \<and>
   query_true_vals (history (update_history mf_caller
     (mk_qinfo 1 10 10 (Some ''low'')) (blackbox_optimise_set_up mf_caller stale_optimiser)))
     = [Num (Finite 10)] \<and>
   query_at_fidel_to_opts (history (update_history mf_caller
     (mk_qinfo 1 10 10 (Some ''low'')) (blackbox_optimise_set_up mf_caller stale_optimiser)))
     = [False] \<and>
   curr_opt_vals (history (update_history mf_caller
     (mk_qinfo 1 10 10 (Some ''low'')) (blackbox_optimise_set_up mf_caller stale_optimiser)))
     = [neg_inf] \<and>
   curr_opt_points (history (update_history mf_caller
     (mk_qinfo 1 10 10 (Some ''low'')) (blackbox_optimise_set_up mf_caller stale_optimiser)))
     = [None] \<and>
   at_fidel_to_opt mf_caller (mk_qinfo 2 4 4 (Some ''high'')) \<and>
   optimum_fields (update_history mf_caller (mk_qinfo 2 4 4 (Some ''high''))
     (blackbox_optimise_set_up mf_caller stale_optimiser)) \<noteq>
   optimum_fields (blackbox_optimise_set_up mf_caller stale_optimiser)"
  using off_target_record_leaves_optimum [of mf_caller "mk_qinfo 1 10 10 (Some ''low'')"
      "blackbox_optimise_set_up mf_caller stale_optimiser"]
    off_target_record_leaves_optimum [of mf_caller "mk_qinfo 2 4 4 (Some ''high'')"
      "blackbox_optimise_set_up mf_caller stale_optimiser"]
  by (simp add: update_history_def copy_from_qinfo_to_history_def ecuh_simps eval_defs
      example_defs)

lemma update_all_num_fidel_to_opt_calls:
  "is_mf fc \<Longrightarrow>
   num_fidel_to_opt_calls (update_all fc qs s) =
     num_fidel_to_opt_calls s + int (length (filter (at_fidel_to_opt fc) qs))"
  by (induction qs arbitrary: s) (simp_all add: ecuh_num_fidel_to_opt_calls)

lemma exd_child_set_up_counter:
  "is_mf fc \<Longrightarrow> exd_child_set_up cls fc s0 = Inr s \<Longrightarrow> num_fidel_to_opt_calls s = 0"
  by (cases cls)
    (auto simp: exd_child_set_up_def blackbox_optimise_set_up_def Let_def)

text \<open>
  Claim C7.  In multi-fidelity mode, after a set up and \<open>N\<close> calls of
  \<open>_exd_child_update_history\<close>, \<open>num_fidel_to_opt_calls\<close> is the number of those \<open>N\<close> records
  that the caller's \<open>is_fidel_to_opt\<close> accepts; from any state, \<open>N\<close> calls add that number
  to the counter.  A record without the attribute \<open>fidel\<close> is judged at the caller's
  \<open>fidel_to_opt\<close>; so, for a caller that accepts its own \<open>fidel_to_opt\<close>, every such
  record counts.
\<close>

theorem num_fidel_to_opt_calls_counts_target_records:
  assumes "is_mf fc" and "exd_child_set_up cls fc s0 = Inr s"
  shows "num_fidel_to_opt_calls (update_all fc qs s) =
           int (length (filter (at_fidel_to_opt fc) qs)) \<and>
         num_fidel_to_opt_calls (update_all fc qs s') =
           num_fidel_to_opt_calls s' + int (length (filter (at_fidel_to_opt fc) qs)) \<and>
         (fidel q = None \<longrightarrow> eval_fidel fc q = fidel_to_opt fc) \<and>
         (fidel q = None \<and> is_fidel_to_opt fc (fidel_to_opt fc) \<longrightarrow>
            at_fidel_to_opt fc q \<and>
            num_fidel_to_opt_calls (exd_child_update_history fc q s') =
              num_fidel_to_opt_calls s' + 1)"
  using assms(1) update_all_num_fidel_to_opt_calls [OF assms(1), of qs s]
    update_all_num_fidel_to_opt_calls [OF assms(1), of qs s']
    exd_child_set_up_counter [OF assms]
  by (simp add: eval_fidel_def at_fidel_to_opt_def ecuh_num_fidel_to_opt_calls)

theorem num_fidel_to_opt_calls_counts_target_records_witness:
  "is_mf mf_caller \<and>
   exd_child_set_up OptInitialiser mf_caller stale_optimiser =
     Inr (blackbox_optimise_set_up mf_caller (stale_optimiser\<lparr>num_fidel_to_opt_calls := 0\<rparr>)) \<and>
   num_fidel_to_opt_calls (update_all mf_caller
     [mk_qinfo 1 10 10 (Some ''low''), mk_qinfo 2 4 4 (Some ''high''),
      mk_qinfo 3 8 8 (Some ''high''), mk_qinfo 4 1 1 None]
     (blackbox_optimise_set_up mf_caller (stale_optimiser\<lparr>num_fidel_to_opt_calls := 0\<rparr>))) = 3 \<and>
   curr_opt_val (update_all mf_caller
     [mk_qinfo 1 10 10 (Some ''low''), mk_qinfo 2 4 4 (Some ''high''),
      mk_qinfo 3 8 8 (Some ''high''), mk_qinfo 4 1 1 None]
     (blackbox_optimise_set_up mf_caller (stale_optimiser\<lparr>num_fidel_to_opt_calls := 0\<rparr>)))
     = Num (Finite 8) \<and>
   fidel (mk_qinfo 4 1 1 None) = None \<and>
   is_fidel_to_opt mf_caller (fidel_to_opt mf_caller) \<and>
   at_fidel_to_opt mf_caller (mk_qinfo 4 1 1 None)"
proof -
  have set_up: "exd_child_set_up OptInitialiser mf_caller stale_optimiser =
     Inr (blackbox_optimise_set_up mf_caller (stale_optimiser\<lparr>num_fidel_to_opt_calls := 0\<rparr>))"
    by (simp add: exd_child_set_up_def Let_def mf_caller_def blackbox_optimise_set_up_def)
  have mf: "is_mf mf_caller"
    by (simp add: mf_caller_def)
  show ?thesis
    using num_fidel_to_opt_calls_counts_target_records [OF mf set_up, where
        qs = "[mk_qinfo 1 10 10 (Some ''low''), mk_qinfo 2 4 4 (Some ''high''),
          mk_qinfo 3 8 8 (Some ''high''), mk_qinfo 4 1 1 None]"
        and q = "mk_qinfo 4 1 1 None" and s' = stale_optimiser]
      set_up
    by (simp add: ecuh_simps eval_defs example_defs)
qed


lemma hpe_curr_opt_val:
  "curr_opt_val (handle_prev_eval fc q s) =
     (if eligible fc q \<and> gt (val q) (curr_opt_val s) then val q else curr_opt_val s)"
  by (simp add: handle_prev_eval_def Let_def eligible_def at_fidel_to_opt_def uopv_simps)

lemma hpe_curr_opt_point:
  "curr_opt_point (handle_prev_eval fc q s) =
     (if eligible fc q \<and> gt (val q) (curr_opt_val s) then Some (point q) else curr_opt_point s)"
  by (simp add: handle_prev_eval_def Let_def eligible_def at_fidel_to_opt_def uopv_simps)

lemma hpe_curr_true_opt_val:
  "curr_true_opt_val (handle_prev_eval fc q s) =
     (if eligible fc q \<and> gt (true_val q) (curr_true_opt_val s) then true_val q
      else curr_true_opt_val s)"
  by (simp add: handle_prev_eval_def Let_def eligible_def at_fidel_to_opt_def uopv_simps)

lemma hpe_curr_true_opt_point:
  "curr_true_opt_point (handle_prev_eval fc q s) =
     (if eligible fc q \<and> gt (true_val q) (curr_true_opt_val s) then Some (point q)
      else curr_true_opt_point s)"
  by (simp add: handle_prev_eval_def Let_def eligible_def at_fidel_to_opt_def uopv_simps)

lemma hpe_frame:
  "history (handle_prev_eval fc q s) = history s"
  "num_fidel_to_opt_calls (handle_prev_eval fc q s) = num_fidel_to_opt_calls s"
  "prev_eval_points (handle_prev_eval fc q s) = prev_eval_points s @ [point q]"
  "prev_eval_vals (handle_prev_eval fc q s) = prev_eval_vals s @ [val q]"
  by (simp_all add: handle_prev_eval_def Let_def uopv_simps)

lemmas hpe_simps = hpe_curr_opt_val hpe_curr_opt_point hpe_curr_true_opt_val
  hpe_curr_true_opt_point hpe_frame

lemma optimum_fields_step:
  "optimum_fields s1 = optimum_fields s2 \<Longrightarrow>
   optimum_fields (handle_prev_eval fc q s1) = optimum_fields (exd_child_update_history fc q s2)"
  by (simp add: optimum_fields_def hpe_simps ecuh_simps)

lemma loop_optimum_fields:
  "optimum_fields s1 = optimum_fields s2 \<Longrightarrow>
   optimum_fields (handle_prev_evals_loop fc qs s1) = optimum_fields (update_all fc qs s2)"
proof (induction qs arbitrary: s1 s2)
  case Nil
  then show ?case by simp
next
  case (Cons q qs)
  from Cons.prems have "optimum_fields (handle_prev_eval fc q s1) =
      optimum_fields (exd_child_update_history fc q s2)"
    by (rule optimum_fields_step)
  then show ?case
    using Cons.IH by simp
qed

lemma loop_frame:
  "history (handle_prev_evals_loop fc qs s) = history s"
  "num_fidel_to_opt_calls (handle_prev_evals_loop fc qs s) = num_fidel_to_opt_calls s"
  "prev_eval_points (handle_prev_evals_loop fc qs s) = prev_eval_points s @ map point qs"
  "prev_eval_vals (handle_prev_evals_loop fc qs s) = prev_eval_vals s @ map val qs"
  by (induction qs arbitrary: s) (simp_all add: hpe_frame)

lemma seed_optimum_fields:
  "optimum_fields (exd_child_handle_prev_evals fc qs s) = optimum_fields (update_all fc qs s)"
proof -
  have "optimum_fields (exd_child_handle_prev_evals fc qs s) =
      optimum_fields (handle_prev_evals_loop fc qs s)"
    by (simp add: exd_child_handle_prev_evals_def Let_def optimum_fields_def)
  also have "\<dots> = optimum_fields (update_all fc qs s)"
    by (rule loop_optimum_fields) (rule refl)
  finally show ?thesis .
qed

lemma seed_frame:
  "num_fidel_to_opt_calls (exd_child_handle_prev_evals fc qs s) = num_fidel_to_opt_calls s"
  "prev_eval_points (exd_child_handle_prev_evals fc qs s) = prev_eval_points s @ map point qs"
  "prev_eval_vals (exd_child_handle_prev_evals fc qs s) = prev_eval_vals s @ map val qs"
  "history_prev_eval_points (history (exd_child_handle_prev_evals fc qs s)) =
     prev_eval_points s @ map point qs"
  "history_prev_eval_vals (history (exd_child_handle_prev_evals fc qs s)) =
     prev_eval_vals s @ map val qs"
  "query_vals (history (exd_child_handle_prev_evals fc qs s)) = query_vals (history s)"
  "query_true_vals (history (exd_child_handle_prev_evals fc qs s)) = query_true_vals (history s)"
  "curr_opt_vals (history (exd_child_handle_prev_evals fc qs s)) = curr_opt_vals (history s)"
  "curr_opt_points (history (exd_child_handle_prev_evals fc qs s)) = curr_opt_points (history s)"
  "curr_true_opt_vals (history (exd_child_handle_prev_evals fc qs s)) =
     curr_true_opt_vals (history s)"
  "curr_true_opt_points (history (exd_child_handle_prev_evals fc qs s)) =
     curr_true_opt_points (history s)"
  "query_at_fidel_to_opts (history (exd_child_handle_prev_evals fc qs s)) =
     query_at_fidel_to_opts (history s)"
  by (simp_all add: exd_child_handle_prev_evals_def Let_def loop_frame)

text \<open>
  Claim C3, as amended.  \<open>_exd_child_handle_prev_evals\<close> on \<open>K\<close> prior records leaves
  \<open>curr_opt_val\<close>, \<open>curr_opt_point\<close>, \<open>curr_true_opt_val\<close> and \<open>curr_true_opt_point\<close> exactly
  as \<open>K\<close> calls of \<open>_exd_child_update_history\<close> on the same records would.  Unlike those
  calls it leaves \<open>num_fidel_to_opt_calls\<close> as it was, and it changes no per-step sequence
  of the history.  It appends the points and values of the records to \<open>prev_eval_points\<close>
  and \<open>prev_eval_vals\<close> and stores both lists in the history; when the two lists are empty
  before, each has length \<open>K\<close> afterwards.
\<close>

theorem seeding_advances_optimum_like_update:
  "curr_opt_val (exd_child_handle_prev_evals fc qs s) = curr_opt_val (update_all fc qs s) \<and>
   curr_opt_point (exd_child_handle_prev_evals fc qs s) = curr_opt_point (update_all fc qs s) \<and>
   curr_true_opt_val (exd_child_handle_prev_evals fc qs s) =
     curr_true_opt_val (update_all fc qs s) \<and>
   curr_true_opt_point (exd_child_handle_prev_evals fc qs s) =
     curr_true_opt_point (update_all fc qs s) \<and>
   num_fidel_to_opt_calls (exd_child_handle_prev_evals fc qs s) = num_fidel_to_opt_calls s \<and>
   query_vals (history (exd_child_handle_prev_evals fc qs s)) = query_vals (history s) \<and>
   query_true_vals (history (exd_child_handle_prev_evals fc qs s)) =
     query_true_vals (history s) \<and>
   curr_opt_vals (history (exd_child_handle_prev_evals fc qs s)) = curr_opt_vals (history s) \<and>
   curr_opt_points (history (exd_child_handle_prev_evals fc qs s)) =
     curr_opt_points (history s) \<and>
   curr_true_opt_vals (history (exd_child_handle_prev_evals fc qs s)) =
     curr_true_opt_vals (history s) \<and>
   curr_true_opt_points (history (exd_child_handle_prev_evals fc qs s)) =
     curr_true_opt_points (history s) \<and>
   query_at_fidel_to_opts (history (exd_child_handle_prev_evals fc qs s)) =
     query_at_fidel_to_opts (history s) \<and>
   prev_eval_points (exd_child_handle_prev_evals fc qs s) = prev_eval_points s @ map point qs \<and>
   prev_eval_vals (exd_child_handle_prev_evals fc qs s) = prev_eval_vals s @ map val qs \<and>
   history_prev_eval_points (history (exd_child_handle_prev_evals fc qs s)) =
     prev_eval_points (exd_child_handle_prev_evals fc qs s) \<and>
   history_prev_eval_vals (history (exd_child_handle_prev_evals fc qs s)) =
     prev_eval_vals (exd_child_handle_prev_evals fc qs s) \<and>
   (prev_eval_points s = [] \<and> prev_eval_vals s = [] \<longrightarrow>
      length (history_prev_eval_points (history (exd_child_handle_prev_evals fc qs s))) =
        length qs \<and>
      length (history_prev_eval_vals (history (exd_child_handle_prev_evals fc qs s))) =
        length qs)"
  using seed_optimum_fields [of fc qs s]
  by (simp add: optimum_fields_def seed_frame)

theorem seeding_advances_optimum_like_update_witness:
  "prev_eval_points (blackbox_optimise_set_up mf_caller stale_optimiser) = [] \<and>
   prev_eval_vals (blackbox_optimise_set_up mf_caller stale_optimiser) = [] \<and>
   curr_opt_val (exd_child_handle_prev_evals mf_caller
     [mk_qinfo 1 10 10 (Some ''low''), mk_qinfo 2 4 4 (Some ''high''),
      mk_qinfo 3 8 8 (Some ''high'')]
     (blackbox_optimise_set_up mf_caller stale_optimiser)) = Num (Finite 8) \<and>
   curr_opt_point (exd_child_handle_prev_evals mf_caller
     [mk_qinfo 1 10 10 (Some ''low''), mk_qinfo 2 4 4 (Some ''high''),
      mk_qinfo 3 8 8 (Some ''high'')]
     (blackbox_optimise_set_up mf_caller stale_optimiser)) = Some 3 \<and>
   history_prev_eval_points (history (exd_child_handle_prev_evals mf_caller
     [mk_qinfo 1 10 10 (Some ''low''), mk_qinfo 2 4 4 (Some ''high''),
      mk_qinfo 3 8 8 (Some ''high'')]
     (blackbox_optimise_set_up mf_caller stale_optimiser))) = [1, 2, 3] \<and>
   length (history_prev_eval_vals (history (exd_child_handle_prev_evals mf_caller
     [mk_qinfo 1 10 10 (Some ''low''), mk_qinfo 2 4 4 (Some ''high''),
      mk_qinfo 3 8 8 (Some ''high'')]
     (blackbox_optimise_set_up mf_caller stale_optimiser)))) = 3 \<and>
   curr_opt_vals (history (exd_child_handle_prev_evals mf_caller
     [mk_qinfo 1 10 10 (Some ''low''), mk_qinfo 2 4 4 (Some ''high''),
      mk_qinfo 3 8 8 (Some ''high'')]
     (blackbox_optimise_set_up mf_caller stale_optimiser))) = []"
  using seeding_advances_optimum_like_update [of mf_caller
      "[mk_qinfo 1 10 10 (Some ''low''), mk_qinfo 2 4 4 (Some ''high''),
        mk_qinfo 3 8 8 (Some ''high'')]"
      "blackbox_optimise_set_up mf_caller stale_optimiser"]
  by (simp add: ecuh_simps eval_defs example_defs)

theorem seeding_skips_counter_counterexample:
  "num_fidel_to_opt_calls (exd_child_handle_prev_evals mf_caller
     [mk_qinfo 1 4 4 (Some ''high'')]
     (blackbox_optimise_set_up mf_caller (stale_optimiser\<lparr>num_fidel_to_opt_calls := 0\<rparr>))) = 0 \<and>
   num_fidel_to_opt_calls (update_all mf_caller
     [mk_qinfo 1 4 4 (Some ''high'')]
     (blackbox_optimise_set_up mf_caller (stale_optimiser\<lparr>num_fidel_to_opt_calls := 0\<rparr>))) = 1"
  by (simp add: seed_frame ecuh_simps eval_defs example_defs)


lemma uh_history_lengths:
  "length (query_vals (history (update_history fc q s))) =
     Suc (length (query_vals (history s)))"
  "length (query_true_vals (history (update_history fc q s))) =
     Suc (length (query_true_vals (history s)))"
  "length (curr_opt_vals (history (update_history fc q s))) =
     Suc (length (curr_opt_vals (history s)))"
  "length (curr_opt_points (history (update_history fc q s))) =
     Suc (length (curr_opt_points (history s)))"
  "length (curr_true_opt_vals (history (update_history fc q s))) =
     Suc (length (curr_true_opt_vals (history s)))"
  "length (curr_true_opt_points (history (update_history fc q s))) =
     Suc (length (curr_true_opt_points (history s)))"
  "is_mf fc \<Longrightarrow> length (query_at_fidel_to_opts (history (update_history fc q s))) =
     Suc (length (query_at_fidel_to_opts (history s)))"
  by (simp_all add: update_history_def copy_from_qinfo_to_history_def Let_def ecuh_history)

lemma uha_history_lengths:
  "length (query_vals (history (update_history_all fc qs s))) =
     length (query_vals (history s)) + length qs"
  "length (query_true_vals (history (update_history_all fc qs s))) =
     length (query_true_vals (history s)) + length qs"
  "length (curr_opt_vals (history (update_history_all fc qs s))) =
     length (curr_opt_vals (history s)) + length qs"
  "length (curr_opt_points (history (update_history_all fc qs s))) =
     length (curr_opt_points (history s)) + length qs"
  "length (curr_true_opt_vals (history (update_history_all fc qs s))) =
     length (curr_true_opt_vals (history s)) + length qs"
  "length (curr_true_opt_points (history (update_history_all fc qs s))) =
     length (curr_true_opt_points (history s)) + length qs"
  "is_mf fc \<Longrightarrow> length (query_at_fidel_to_opts (history (update_history_all fc qs s))) =
     length (query_at_fidel_to_opts (history s)) + length qs"
  by (induction qs arbitrary: s) (simp_all add: uh_history_lengths)

lemma set_up_history:
  "query_vals (history (blackbox_optimise_set_up fc s)) = []"
  "query_true_vals (history (blackbox_optimise_set_up fc s)) = []"
  "curr_opt_vals (history (blackbox_optimise_set_up fc s)) = []"
  "curr_opt_points (history (blackbox_optimise_set_up fc s)) = []"
  "curr_true_opt_vals (history (blackbox_optimise_set_up fc s)) = []"
  "curr_true_opt_points (history (blackbox_optimise_set_up fc s)) = []"
  "is_mf fc \<Longrightarrow> query_at_fidel_to_opts (history (blackbox_optimise_set_up fc s)) = []"
  by (simp_all add: blackbox_optimise_set_up_def Let_def)

text \<open>
  Claim C6.  After a set up, an optional replay of prior records, and any number of update
  calls, the per-step sequences \<open>query_vals\<close>, \<open>query_true_vals\<close>, \<open>curr_opt_vals\<close>,
  \<open>curr_opt_points\<close>, \<open>curr_true_opt_vals\<close>, \<open>curr_true_opt_points\<close> and, in multi-fidelity
  mode, \<open>query_at_fidel_to_opts\<close> all have the same length, the number of update calls; the
  replayed records do not count.
\<close>

theorem history_sequences_have_equal_length:
  "length (query_vals (history (update_history_all fc qs
     (exd_child_handle_prev_evals fc ps (blackbox_optimise_set_up fc s))))) = length qs \<and>
   length (query_true_vals (history (update_history_all fc qs
     (exd_child_handle_prev_evals fc ps (blackbox_optimise_set_up fc s))))) = length qs \<and>
   length (curr_opt_vals (history (update_history_all fc qs
     (exd_child_handle_prev_evals fc ps (blackbox_optimise_set_up fc s))))) = length qs \<and>
   length (curr_opt_points (history (update_history_all fc qs
     (exd_child_handle_prev_evals fc ps (blackbox_optimise_set_up fc s))))) = length qs \<and>
   length (curr_true_opt_vals (history (update_history_all fc qs
     (exd_child_handle_prev_evals fc ps (blackbox_optimise_set_up fc s))))) = length qs \<and>
   length (curr_true_opt_points (history (update_history_all fc qs
     (exd_child_handle_prev_evals fc ps (blackbox_optimise_set_up fc s))))) = length qs \<and>
   (is_mf fc \<longrightarrow>
      length (query_at_fidel_to_opts (history (update_history_all fc qs
        (exd_child_handle_prev_evals fc ps (blackbox_optimise_set_up fc s))))) = length qs)"
  by (simp add: uha_history_lengths seed_frame set_up_history)

theorem history_sequences_have_equal_length_witness:
  "is_mf mf_caller \<and>
   query_vals (history (update_history_all mf_caller
     [mk_qinfo 1 10 10 (Some ''low''), mk_qinfo 2 4 4 (Some ''high''),
      mk_qinfo 3 8 8 (Some ''high'')]
     (exd_child_handle_prev_evals mf_caller [mk_qinfo 0 1 1 (Some ''high'')]
       (blackbox_optimise_set_up mf_caller stale_optimiser)))) =
     [Num (Finite 10), Num (Finite 4), Num (Finite 8)] \<and>
   curr_opt_vals (history (update_history_all mf_caller
     [mk_qinfo 1 10 10 (Some ''low''), mk_qinfo 2 4 4 (Some ''high''),
      mk_qinfo 3 8 8 (Some ''high'')]
     (exd_child_handle_prev_evals mf_caller [mk_qinfo 0 1 1 (Some ''high'')]
       (blackbox_optimise_set_up mf_caller stale_optimiser)))) =
     [Num (Finite 1), Num (Finite 4), Num (Finite 8)] \<and>
   query_at_fidel_to_opts (history (update_history_all mf_caller
     [mk_qinfo 1 10 10 (Some ''low''), mk_qinfo 2 4 4 (Some ''high''),
      mk_qinfo 3 8 8 (Some ''high'')]
     (exd_child_handle_prev_evals mf_caller [mk_qinfo 0 1 1 (Some ''high'')]
       (blackbox_optimise_set_up mf_caller stale_optimiser)))) = [False, True, True] \<and>
   length (query_at_fidel_to_opts (history (update_history_all mf_caller
     [mk_qinfo 1 10 10 (Some ''low''), mk_qinfo 2 4 4 (Some ''high''),
      mk_qinfo 3 8 8 (Some ''high'')]
     (exd_child_handle_prev_evals mf_caller [mk_qinfo 0 1 1 (Some ''high'')]
       (blackbox_optimise_set_up mf_caller stale_optimiser))))) = 3"
  using history_sequences_have_equal_length [of mf_caller
      "[mk_qinfo 1 10 10 (Some ''low''), mk_qinfo 2 4 4 (Some ''high''),
        mk_qinfo 3 8 8 (Some ''high'')]"
      "[mk_qinfo 0 1 1 (Some ''high'')]" stale_optimiser]
  by (simp add: update_history_def copy_from_qinfo_to_history_def exd_child_handle_prev_evals_def
      hpe_simps ecuh_simps eval_defs example_defs)

text \<open>
  Claim C4, as amended.  On \<open>OptInitialiser\<close> the handling of prior evaluations, the
  generation of initial records and the selection of the next query, single or in a batch,
  raise \<open>ValueError\<close> whatever their arguments.  The update path is not overridden:
  \<open>_exd_child_update_history\<close> and \<open>_update_opt_point_and_val\<close> run on an initialiser as
  they do on a \<open>BlackboxOptimiser\<close> and raise nothing.
\<close>

theorem initialiser_raises_except_on_update_path:
  "call_exd_child_handle_prev_evals OptInitialiser fc qinfos s =
     Inl (ValueError ''No reason to call this method in an initialiser.'') \<and>
   OptInitialiser_get_initial_qinfos num_init_evals =
     (Inl (ValueError ''No reason to call this method in an initialiser.'')
        :: error + ('p, 'f) qinfo list) \<and>
   OptInitialiser_determine_next_query =
     (Inl (ValueError ''No reason to call this method in an initialiser.'')
        :: error + ('p, 'f) qinfo) \<and>
   OptInitialiser_determine_next_batch_of_queries batch_size =
     (Inl (ValueError ''No reason to call this method in an initialiser.'')
        :: error + ('p, 'f) qinfo list) \<and>
   call_exd_child_update_history OptInitialiser fc q s =
     Inr (exd_child_update_history fc q s) \<and>
   call_exd_child_update_history OptInitialiser fc q s =
     call_exd_child_update_history BlackboxOptimiser fc q s \<and>
   call_update_opt_point_and_val OptInitialiser q b s =
     Inr (update_opt_point_and_val q b s)"
  by (simp add: OptInitialiser_get_initial_qinfos_def OptInitialiser_determine_next_query_def
      OptInitialiser_determine_next_batch_of_queries_def)

theorem initialiser_update_path_counterexample:
  "(case call_exd_child_update_history OptInitialiser sf_caller (mk_qinfo 1 3 3 None)
           (blackbox_optimise_set_up sf_caller stale_optimiser) of
      Inl e \<Rightarrow> False
    | Inr s' \<Rightarrow> curr_opt_val s' = Num (Finite 3) \<and> curr_opt_point s' = Some 1 \<and>
               curr_opt_vals (history s') = [Num (Finite 3)])"
  by (simp add: ecuh_simps eval_defs example_defs)


lemma sum_bools_count: "sum_bools bs = int (length (filter (\<lambda>b. b) bs))"
  by (induction bs) (simp_all add: sum_bools_def)

lemma slice_last_length: "length (slice_last n xs) = min n (length xs)"
  by (simp add: slice_last_def)

lemma slice_last_suffix: "take (length xs - n) xs @ slice_last n xs = xs"
  by (simp add: slice_last_def)

lemma fmt_d_20: "fmt_d (int 20) = ''20''"
  by (simp add: fmt_d_def str_of_nat.simps)

text \<open>
  Claim C5, as amended.  In multi-fidelity mode the status line is the current maximum as
  \<open>%0.5f\<close> prints it, the total \<open>num_fidel_to_opt_calls\<close>, and the number of evaluations at
  the fidelity to optimise among the most recent \<open>min(20, history length)\<close> processed
  evaluations, displayed as \<open>count/20\<close>: the denominator is the constant window length 20,
  also when the history is shorter than 20.
\<close>

theorem status_line_shows_window_count_over_20:
  assumes "is_mf fc"
  shows "get_exd_child_report_results_str fmt_0_5f fc s =
           ''curr_max='' @ fmt_0_5f (curr_opt_val s) @ '', #f2o='' @
           fmt_d (num_fidel_to_opt_calls s) @ ''('' @
           fmt_d (int (length (filter (\<lambda>b. b)
             (slice_last 20 (query_at_fidel_to_opts (history s)))))) @ ''/20), '' \<and>
         length (slice_last 20 (query_at_fidel_to_opts (history s))) =
           min 20 (length (query_at_fidel_to_opts (history s))) \<and>
         take (length (query_at_fidel_to_opts (history s)) - 20)
             (query_at_fidel_to_opts (history s)) @
           slice_last 20 (query_at_fidel_to_opts (history s)) =
           query_at_fidel_to_opts (history s)"
  using assms
  by (simp add: get_exd_child_report_results_str_def fidel_to_opt_str_def Let_def
      get_opt_method_report_results_str_def sum_bools_count slice_last_length
      slice_last_suffix fmt_d_20 [simplified])

theorem status_line_shows_window_count_over_20_witness:
  "is_mf mf_caller \<and>
   length (query_at_fidel_to_opts (history (update_all mf_caller
     [mk_qinfo 1 10 10 (Some ''low''), mk_qinfo 2 4 4 (Some ''high''),
      mk_qinfo 3 8 8 (Some ''high'')]
     (blackbox_optimise_set_up mf_caller (stale_optimiser\<lparr>num_fidel_to_opt_calls := 0\<rparr>))))) = 3 \<and>
   get_exd_child_report_results_str (\<lambda>v. ''8.00000'') mf_caller
     (update_all mf_caller
       [mk_qinfo 1 10 10 (Some ''low''), mk_qinfo 2 4 4 (Some ''high''),
        mk_qinfo 3 8 8 (Some ''high'')]
       (blackbox_optimise_set_up mf_caller (stale_optimiser\<lparr>num_fidel_to_opt_calls := 0\<rparr>))) =
     ''curr_max=8.00000, #f2o=2(2/20), ''"
  using status_line_shows_window_count_over_20 [of mf_caller "\<lambda>v. ''8.00000''"
      "update_all mf_caller
        [mk_qinfo 1 10 10 (Some ''low''), mk_qinfo 2 4 4 (Some ''high''),
         mk_qinfo 3 8 8 (Some ''high'')]
        (blackbox_optimise_set_up mf_caller (stale_optimiser\<lparr>num_fidel_to_opt_calls := 0\<rparr>))"]
  by (simp add: slice_last_def fmt_d_def str_of_nat.simps ecuh_simps eval_defs example_defs)

theorem status_line_denominator_counterexample:
  "length (query_at_fidel_to_opts (history (update_all mf_caller
     [mk_qinfo 1 10 10 (Some ''low''), mk_qinfo 2 4 4 (Some ''high''),
      mk_qinfo 3 8 8 (Some ''high'')]
     (blackbox_optimise_set_up mf_caller (stale_optimiser\<lparr>num_fidel_to_opt_calls := 0\<rparr>))))) = 3 \<and>
   fidel_to_opt_str mf_caller
     (update_all mf_caller
       [mk_qinfo 1 10 10 (Some ''low''), mk_qinfo 2 4 4 (Some ''high''),
        mk_qinfo 3 8 8 (Some ''high'')]
       (blackbox_optimise_set_up mf_caller (stale_optimiser\<lparr>num_fidel_to_opt_calls := 0\<rparr>))) =
     '', #f2o=2(2/20)'' \<and>
   fidel_to_opt_str_spec mf_caller
     (update_all mf_caller
       [mk_qinfo 1 10 10 (Some ''low''), mk_qinfo 2 4 4 (Some ''high''),
        mk_qinfo 3 8 8 (Some ''high'')]
       (blackbox_optimise_set_up mf_caller (stale_optimiser\<lparr>num_fidel_to_opt_calls := 0\<rparr>))) =
     '', #f2o=2(2/3)''"
  by (simp add: fidel_to_opt_str_def fidel_to_opt_str_spec_def sum_bools_def slice_last_def
      fmt_d_def str_of_nat.simps ecuh_simps eval_defs example_defs)



end
